theory Spec2Isabelle
  imports Complex_Main "HOL-Library.Multiset"
begin

section \<open>JavaScript numbers\<close>

text \<open>
  A JavaScript number is an IEEE-754 binary64 value. Every finite binary64 value is a
  rational number, so a number is modelled as a rational or one of the three special
  values. Negative zero is identified with zero: the program never divides by zero
  (\<open>calculateGPA\<close> guards the division), its sums start from \<open>+0\<close>, and
  \<open>toFixed\<close>, the comparisons and \<open>JSON.stringify\<close> do not tell the two
  zeros apart.

  Arithmetic is exact arithmetic followed by rounding to the nearest binary64 value, ties
  to the even significand (\<open>rnd\<close>). The functions below are written so that each
  intermediate value is computed once when a term is evaluated.
\<close>

datatype jsnum = Fin rat | PInf | NInf | NaN

definition square :: "rat \<Rightarrow> rat" where
  "square x = x * x"

text \<open>\<open>ipow b k\<close> is \<open>b\<close> to the power \<open>k\<close> for \<open>k \<ge> 0\<close>, by repeated squaring.\<close>

function ipow :: "rat \<Rightarrow> int \<Rightarrow> rat" where
  "ipow b k =
     (if k \<le> 0 then 1
      else if even k then square (ipow b (k div 2))
      else b * square (ipow b (k div 2)))"
  by pat_completeness auto
termination
  by (relation "measure (\<lambda>(b, k). nat k)") auto

declare ipow.simps [simp del]

definition pow2 :: "int \<Rightarrow> rat" where
  "pow2 k = (if 0 \<le> k then ipow 2 k else 1 / ipow 2 (- k))"

definition pow10 :: "int \<Rightarrow> rat" where
  "pow10 k = (if 0 \<le> k then ipow 10 k else 1 / ipow 10 (- k))"

text \<open>The number of binary digits of a positive integer.\<close>

function bit_length :: "int \<Rightarrow> int" where
  "bit_length n = (if n \<le> 0 then 0 else 1 + bit_length (n div 2))"
  by pat_completeness auto
termination
  by (relation "measure nat") auto

declare bit_length.simps [simp del]

text \<open>\<open>ilog2 a\<close> is the integer \<open>e\<close> with \<open>2^e \<le> a < 2^(e+1)\<close>, for \<open>a > 0\<close>.\<close>

definition ilog2 :: "rat \<Rightarrow> int" where
  "ilog2 a = (if 1 \<le> a then bit_length \<lfloor>a\<rfloor> - 1
              else - bit_length (\<lceil>1 / a\<rceil> - 1))"

definition half_even :: "int \<Rightarrow> rat \<Rightarrow> int" where
  "half_even f d =
     (if d < 1 / 2 then f else if 1 / 2 < d then f + 1
      else if even f then f else f + 1)"

definition round_half_even :: "rat \<Rightarrow> int" where
  "round_half_even x = half_even \<lfloor>x\<rfloor> (x - of_int \<lfloor>x\<rfloor>)"

text \<open>
  \<open>assemble pos n e\<close> is the value with significand \<open>n\<close> (an integer of at most 53
  bits, or \<open>2^53\<close> after a carry) in the binade of exponent \<open>e\<close>; it overflows to an
  infinity from \<open>2^1024\<close> on.
\<close>

definition assemble :: "bool \<Rightarrow> int \<Rightarrow> int \<Rightarrow> jsnum" where
  "assemble pos n e =
     (if 1023 < e \<or> (e = 1023 \<and> n = 9007199254740992)
      then (if pos then PInf else NInf)
      else Fin ((if pos then of_int n else - of_int n) * pow2 (e - 52)))"

definition rnd_in_binade :: "bool \<Rightarrow> rat \<Rightarrow> int \<Rightarrow> jsnum" where
  "rnd_in_binade pos a e = assemble pos (round_half_even (a / pow2 (e - 52))) e"

text \<open>
  Rounding to binary64: the binade of \<open>|x|\<close> has exponent \<open>ilog2 |x|\<close>, at least
  \<open>-1022\<close> (below it the values are subnormal and share the spacing \<open>2^-1074\<close>); the
  significand is \<open>|x| / 2^(e - 52)\<close> rounded to an integer, ties to even.
\<close>

definition rnd :: "rat \<Rightarrow> jsnum" where
  "rnd x = (if x = 0 then Fin 0
            else rnd_in_binade (0 < x) \<bar>x\<bar> (max (ilog2 \<bar>x\<bar>) (- 1022)))"

fun js_add :: "jsnum \<Rightarrow> jsnum \<Rightarrow> jsnum" where
  "js_add (Fin a) (Fin b) = rnd (a + b)"
| "js_add NaN _ = NaN"
| "js_add _ NaN = NaN"
| "js_add PInf NInf = NaN"
| "js_add NInf PInf = NaN"
| "js_add PInf _ = PInf"
| "js_add _ PInf = PInf"
| "js_add NInf _ = NInf"
| "js_add _ NInf = NInf"

text \<open>The sign of a number, as \<open>-1\<close>, \<open>0\<close> or \<open>1\<close>; \<open>NaN\<close> has none.\<close>

fun js_sign :: "jsnum \<Rightarrow> int option" where
  "js_sign (Fin a) = Some (if a < 0 then - 1 else if a = 0 then 0 else 1)"
| "js_sign PInf = Some 1"
| "js_sign NInf = Some (- 1)"
| "js_sign NaN = None"

fun js_mul :: "jsnum \<Rightarrow> jsnum \<Rightarrow> jsnum" where
  "js_mul (Fin a) (Fin b) = rnd (a * b)"
| "js_mul x y =
     (case (js_sign x, js_sign y) of
        (Some s, Some t) \<Rightarrow> (if s * t = 0 then NaN else if 0 < s * t then PInf else NInf)
      | _ \<Rightarrow> NaN)"

text \<open>Division; a zero divisor is the positive zero.\<close>

fun js_div :: "jsnum \<Rightarrow> jsnum \<Rightarrow> jsnum" where
  "js_div (Fin a) (Fin b) =
     (if b = 0 then (if a = 0 then NaN else if 0 < a then PInf else NInf)
      else rnd (a / b))"
| "js_div NaN _ = NaN"
| "js_div _ NaN = NaN"
| "js_div (Fin a) _ = Fin 0"
| "js_div PInf (Fin b) = (if 0 \<le> b then PInf else NInf)"
| "js_div NInf (Fin b) = (if 0 \<le> b then NInf else PInf)"
| "js_div _ _ = NaN"

text \<open>\<open>x > 0\<close> and \<open>x <= 0\<close>; every comparison with \<open>NaN\<close> is false.\<close>

fun js_gt_zero :: "jsnum \<Rightarrow> bool" where
  "js_gt_zero (Fin a) = (0 < a)"
| "js_gt_zero PInf = True"
| "js_gt_zero NInf = False"
| "js_gt_zero NaN = False"

fun js_le_zero :: "jsnum \<Rightarrow> bool" where
  "js_le_zero (Fin a) = (a \<le> 0)"
| "js_le_zero PInf = False"
| "js_le_zero NInf = True"
| "js_le_zero NaN = False"

text \<open>The global \<open>isNaN\<close>, on a number.\<close>

fun isNaN :: "jsnum \<Rightarrow> bool" where
  "isNaN NaN = True"
| "isNaN _ = False"

fun is_finite :: "jsnum \<Rightarrow> bool" where
  "is_finite (Fin a) = True"
| "is_finite _ = False"


fun js_neg :: "jsnum \<Rightarrow> jsnum" where
  "js_neg (Fin a) = Fin (- a)"
| "js_neg PInf = NInf"
| "js_neg NInf = PInf"
| "js_neg NaN = NaN"

section \<open>Strings and number conversion\<close>

text \<open>
  Strings are lists of characters, read as code units below 256. The white space that
  \<open>trim\<close> and \<open>parseFloat\<close> strip is then TAB, LF, VT, FF, CR, space and the
  no-break space.
\<close>

definition is_whitespace :: "char \<Rightarrow> bool" where
  "is_whitespace c =
     (c \<in> set [CHR 0x09, CHR 0x0A, CHR 0x0B, CHR 0x0C, CHR 0x0D, CHR 0x20, CHR 0xA0])"

definition trim_start :: "string \<Rightarrow> string" where
  "trim_start s = dropWhile is_whitespace s"

text \<open>\<open>String.prototype.trim\<close>.\<close>

definition trim :: "string \<Rightarrow> string" where
  "trim s = rev (dropWhile is_whitespace (rev (dropWhile is_whitespace s)))"

definition is_digit :: "char \<Rightarrow> bool" where
  "is_digit c = (c \<in> set ''0123456789'')"

definition digit_val :: "char \<Rightarrow> int" where
  "digit_val c = of_char c - 48"

definition digits_val :: "string \<Rightarrow> int" where
  "digits_val ds = foldl (\<lambda>n c. 10 * n + digit_val c) 0 ds"

text \<open>
  The grammar \<open>StrUnsignedDecimalLiteral\<close> without \<open>Infinity\<close>: digits, an optional
  point with digits, an optional exponent part. \<open>parseFloat\<close> reads the longest prefix
  of the text that the grammar accepts.
\<close>

definition int_part :: "string \<Rightarrow> string" where
  "int_part s = takeWhile is_digit s"

definition after_int :: "string \<Rightarrow> string" where
  "after_int s = dropWhile is_digit s"

definition has_point :: "string \<Rightarrow> bool" where
  "has_point s = (after_int s \<noteq> [] \<and> hd (after_int s) = CHR ''.'')"

definition frac_part :: "string \<Rightarrow> string" where
  "frac_part s = (if has_point s then takeWhile is_digit (tl (after_int s)) else [])"

definition after_mantissa :: "string \<Rightarrow> string" where
  "after_mantissa s =
     (if has_point s then dropWhile is_digit (tl (after_int s)) else after_int s)"

text \<open>An optional sign and at least one digit, at the start of the text.\<close>

definition signed_integer :: "string \<Rightarrow> int option" where
  "signed_integer s =
     (if s \<noteq> [] \<and> hd s = CHR ''-'' then
        (if takeWhile is_digit (tl s) = [] then None
         else Some (- digits_val (takeWhile is_digit (tl s))))
      else if s \<noteq> [] \<and> hd s = CHR ''+'' then
        (if takeWhile is_digit (tl s) = [] then None
         else Some (digits_val (takeWhile is_digit (tl s))))
      else if takeWhile is_digit s = [] then None
      else Some (digits_val (takeWhile is_digit s)))"

text \<open>The exponent that follows the mantissa; \<open>0\<close> when no exponent part follows.\<close>

definition exponent_part :: "string \<Rightarrow> int" where
  "exponent_part s =
     (if s \<noteq> [] \<and> (hd s = CHR ''e'' \<or> hd s = CHR ''E'') then
        (case signed_integer (tl s) of Some k \<Rightarrow> k | None \<Rightarrow> 0)
      else 0)"

text \<open>The mathematical value of the decimal prefix, if the text has one.\<close>

definition decimal_value :: "string \<Rightarrow> rat option" where
  "decimal_value s =
     (if int_part s = [] \<and> frac_part s = [] then None
      else Some (of_int (digits_val (int_part s @ frac_part s)) *
                 pow10 (exponent_part (after_mantissa s) - int (length (frac_part s)))))"

definition unsigned_value :: "string \<Rightarrow> jsnum" where
  "unsigned_value s =
     (if take 8 s = ''Infinity'' then PInf
      else case decimal_value s of None \<Rightarrow> NaN | Some v \<Rightarrow> rnd v)"

text \<open>
  \<open>parseFloat\<close> on a string: leading white space is skipped, the longest prefix that
  is a \<open>StrDecimalLiteral\<close> is read and its value is rounded to binary64; \<open>NaN\<close>
  when there is no such prefix.
\<close>

definition parseFloat_string :: "string \<Rightarrow> jsnum" where
  "parseFloat_string s =
     (if trim_start s \<noteq> [] \<and> hd (trim_start s) = CHR ''-''
        then js_neg (unsigned_value (tl (trim_start s)))
      else if trim_start s \<noteq> [] \<and> hd (trim_start s) = CHR ''+''
        then unsigned_value (tl (trim_start s))
      else unsigned_value (trim_start s))"

text \<open>The decimal digits of a positive integer; no digit for zero.\<close>

function decimal_digits :: "int \<Rightarrow> string" where
  "decimal_digits n =
     (if n \<le> 0 then [] else decimal_digits (n div 10) @ [''0123456789'' ! nat (n mod 10)])"
  by pat_completeness auto
termination
  by (relation "measure nat") auto

declare decimal_digits.simps [simp del]

definition integer_string :: "int \<Rightarrow> string" where
  "integer_string n = (if n \<le> 0 then ''0'' else decimal_digits n)"

text \<open>
  \<open>Number::toString\<close> for a finite \<open>x \<ge> 10^21\<close>, which is then written with an
  exponent: the digits are those of the shortest decimal \<open>s * 10^(n - k)\<close> (with \<open>k\<close>
  digits) that rounds to \<open>x\<close>, the closest to \<open>x\<close> when two have that length.
  \<open>shortest_decimal x n k\<close> looks for it from \<open>k\<close> digits on, \<open>n\<close> being the number of
  digits of the integer part of \<open>x\<close>; 17 digits always suffice.
\<close>

definition closer :: "rat \<Rightarrow> rat \<Rightarrow> rat \<Rightarrow> rat \<Rightarrow> rat" where
  "closer x u lo hi =
     (if x - lo < hi - x then lo else if hi - x < x - lo then hi
      else if even \<lfloor>lo / u\<rfloor> then lo else hi)"

function shortest_decimal :: "rat \<Rightarrow> int \<Rightarrow> int \<Rightarrow> rat" where
  "shortest_decimal x n k =
     (if 17 < k \<or> k < 1 then x
      else if rnd (of_int \<lfloor>x / pow10 (n - k)\<rfloor> * pow10 (n - k)) = Fin x then
        (if rnd (of_int (\<lfloor>x / pow10 (n - k)\<rfloor> + 1) * pow10 (n - k)) = Fin x
         then closer x (pow10 (n - k)) (of_int \<lfloor>x / pow10 (n - k)\<rfloor> * pow10 (n - k))
                (of_int (\<lfloor>x / pow10 (n - k)\<rfloor> + 1) * pow10 (n - k))
         else of_int \<lfloor>x / pow10 (n - k)\<rfloor> * pow10 (n - k))
      else if rnd (of_int (\<lfloor>x / pow10 (n - k)\<rfloor> + 1) * pow10 (n - k)) = Fin x
        then of_int (\<lfloor>x / pow10 (n - k)\<rfloor> + 1) * pow10 (n - k)
      else shortest_decimal x n (k + 1))"
  by pat_completeness auto
termination
  by (relation "measure (\<lambda>(x, n, k). nat (18 - k))") auto

declare shortest_decimal.simps [simp del]

definition strip_zeros :: "string \<Rightarrow> string" where
  "strip_zeros ds = rev (dropWhile (\<lambda>c. c = CHR ''0'') (rev ds))"

definition exponential_form :: "string \<Rightarrow> string" where
  "exponential_form ds =
     (if length (strip_zeros ds) \<le> 1 then strip_zeros ds
      else hd ds # CHR ''.'' # tl (strip_zeros ds))
     @ ''e+'' @ integer_string (int (length ds) - 1)"

definition toString_large :: "rat \<Rightarrow> string" where
  "toString_large x =
     exponential_form
       (decimal_digits \<lfloor>shortest_decimal x (int (length (decimal_digits \<lfloor>x\<rfloor>))) 1\<rfloor>)"

text \<open>
  \<open>Number.prototype.toFixed(2)\<close> on a non-negative \<open>x < 10^21\<close>: the integer \<open>n\<close>
  closest to \<open>100 x\<close> (the larger one on a tie), written with at least three digits and
  a point before the last two.
\<close>

definition pad3 :: "string \<Rightarrow> string" where
  "pad3 ds = replicate (3 - length ds) (CHR ''0'') @ ds"

definition fixed2_digits :: "int \<Rightarrow> string" where
  "fixed2_digits n =
     take (length (pad3 (integer_string n)) - 2) (pad3 (integer_string n)) @ ''.'' @
     drop (length (pad3 (integer_string n)) - 2) (pad3 (integer_string n))"

definition toFixed2_magnitude :: "rat \<Rightarrow> string" where
  "toFixed2_magnitude a =
     (if pow10 21 \<le> a then toString_large a else fixed2_digits \<lfloor>a * 100 + 1 / 2\<rfloor>)"

fun toFixed2 :: "jsnum \<Rightarrow> string" where
  "toFixed2 NaN = ''NaN''"
| "toFixed2 PInf = ''Infinity''"
| "toFixed2 NInf = ''-Infinity''"
| "toFixed2 (Fin x) =
     (if x < 0 then ''-'' @ toFixed2_magnitude (- x) else toFixed2_magnitude x)"

text \<open>
  \<open>Number::toString\<close> (radix 10) on any number. For a positive \<open>a\<close> with
  \<open>10^(n - 1) \<le> a < 10^n\<close>, the digits are those of the shortest decimal that rounds to
  \<open>a\<close>, as above; \<open>scaled_digits\<close> writes that decimal as a 17-digit integer (18
  digits when it is \<open>10^n\<close> itself), from which the trailing zeros are dropped. The
  digits are laid out as an integer, with a point, after \<open>0.\<close> or with an exponent,
  depending on \<open>n\<close>.
\<close>

definition decimal_exponent :: "rat \<Rightarrow> int" where
  "decimal_exponent a =
     (if 1 \<le> a then int (length (decimal_digits \<lfloor>a\<rfloor>))
      else 1 - int (length (decimal_digits (\<lceil>1 / a\<rceil> - 1))))"

definition format_number :: "string \<Rightarrow> int \<Rightarrow> string" where
  "format_number ds n =
     (if int (length ds) \<le> n \<and> n \<le> 21 then ds @ replicate (nat (n - int (length ds))) (CHR ''0'')
      else if 0 < n \<and> n \<le> 21 then take (nat n) ds @ ''.'' @ drop (nat n) ds
      else if - 6 < n \<and> n \<le> 0 then ''0.'' @ replicate (nat (- n)) (CHR ''0'') @ ds
      else (if length ds = 1 then ds else hd ds # CHR ''.'' # tl ds) @ ''e'' @
           (if 0 \<le> n - 1 then ''+'' else ''-'') @ integer_string \<bar>n - 1\<bar>)"

definition format_digits :: "string \<Rightarrow> int \<Rightarrow> string" where
  "format_digits ds n = format_number (strip_zeros ds) (n + int (length ds) - 17)"

definition scaled_digits :: "rat \<Rightarrow> int \<Rightarrow> string" where
  "scaled_digits v n = decimal_digits \<lfloor>v * pow10 (17 - n)\<rfloor>"

definition toString_at :: "rat \<Rightarrow> int \<Rightarrow> string" where
  "toString_at a n = format_digits (scaled_digits (shortest_decimal a n 1) n) n"

fun Number_toString :: "jsnum \<Rightarrow> string" where
  "Number_toString NaN = ''NaN''"
| "Number_toString PInf = ''Infinity''"
| "Number_toString NInf = ''-Infinity''"
| "Number_toString (Fin x) =
     (if x = 0 then ''0''
      else if x < 0 then ''-'' @ toString_at (- x) (decimal_exponent (- x))
      else toString_at x (decimal_exponent x))"

section \<open>Data layer: \<open>GPADataLayer\<close>\<close>

text \<open>
  A course is the object \<open>{name, credits, grade}\<close>. The name and the grade are
  strings. The credits are a number when the course comes from the form
  (\<open>addCourseHandler\<close> stores the result of \<open>parseFloat\<close>); in persisted state they
  may also be a string or, after \<open>JSON.stringify\<close> has written a non-finite number,
  \<open>null\<close>.
\<close>

datatype jsval = JNumber jsnum | JString string | JNull

record course =
  name :: string
  credits :: jsval
  grade :: string

text \<open>
  The text stored under the key \<open>gpaCalculatorCourses\<close>. A text that is the JSON
  serialisation of an array of courses is represented by the array that \<open>JSON.parse\<close>
  returns for it; the other texts are the empty string and texts that \<open>JSON.parse\<close>
  rejects. \<open>JSON.stringify\<close> writes a finite number as a literal that parses back to
  the same number, a string as a literal that parses back to the same string, and a
  non-finite number as \<open>null\<close>.
\<close>

datatype stored_text = ArrayText "course list" | EmptyText | MalformedText

datatype error = SyntaxError

definition stringify_value :: "jsval \<Rightarrow> jsval" where
  "stringify_value v =
     (case v of JNumber x \<Rightarrow> (if is_finite x then JNumber x else JNull) | _ \<Rightarrow> v)"

definition JSON_stringify :: "course list \<Rightarrow> stored_text" where
  "JSON_stringify cs = ArrayText (map (\<lambda>c. c\<lparr>credits := stringify_value (credits c)\<rparr>) cs)"

fun JSON_parse :: "stored_text \<Rightarrow> error + course list" where
  "JSON_parse (ArrayText cs) = Inr cs"
| "JSON_parse EmptyText = Inl SyntaxError"
| "JSON_parse MalformedText = Inl SyntaxError"

text \<open>
  The state: the \<open>courses\<close> field of the \<open>GPADataLayer\<close> object and the entry of
  \<open>localStorage\<close> (\<open>None\<close> when the key is absent). \<open>localStorage.setItem\<close> is
  taken to succeed.
\<close>

record data_layer =
  courses :: "course list"
  localStorage :: "stored_text option"

text \<open>\<open>stored ? JSON.parse(stored) : []\<close>: an absent key and the empty string are falsy.\<close>

definition loadFromStorage :: "stored_text option \<Rightarrow> error + course list" where
  "loadFromStorage stored =
     (case stored of
        None \<Rightarrow> Inr []
      | Some EmptyText \<Rightarrow> Inr []
      | Some text \<Rightarrow> JSON_parse text)"

text \<open>The constructor: a fresh instance over the given storage.\<close>

definition new_GPADataLayer :: "stored_text option \<Rightarrow> error + data_layer" where
  "new_GPADataLayer stored =
     (case loadFromStorage stored of
        Inl e \<Rightarrow> Inl e
      | Inr cs \<Rightarrow> Inr \<lparr>courses = cs, localStorage = stored\<rparr>)"

definition saveToStorage :: "data_layer \<Rightarrow> data_layer" where
  "saveToStorage s = s\<lparr>localStorage := Some (JSON_stringify (courses s))\<rparr>"

definition addCourse :: "course \<Rightarrow> data_layer \<Rightarrow> data_layer" where
  "addCourse c s = saveToStorage (s\<lparr>courses := courses s @ [c]\<rparr>)"

text \<open>
  \<open>Array.prototype.splice(index, 1)\<close> with an integer index: a negative start counts
  from the end and is clamped to \<open>0\<close>, a start beyond the end is clamped to the length,
  and the number of deleted elements is \<open>1\<close> clamped to what is left after the start.
\<close>

definition actual_start :: "int \<Rightarrow> int \<Rightarrow> int" where
  "actual_start i len = (if i < 0 then max (len + i) 0 else min i len)"

definition delete_count :: "int \<Rightarrow> int \<Rightarrow> int" where
  "delete_count start len = min (max 1 0) (len - start)"

definition splice1 :: "int \<Rightarrow> 'a list \<Rightarrow> 'a list" where
  "splice1 i xs =
     take (nat (actual_start i (int (length xs)))) xs @
     drop (nat (actual_start i (int (length xs)) +
                delete_count (actual_start i (int (length xs))) (int (length xs)))) xs"

definition removeCourse :: "int \<Rightarrow> data_layer \<Rightarrow> data_layer" where
  "removeCourse i s = saveToStorage (s\<lparr>courses := splice1 i (courses s)\<rparr>)"

definition clearAllCourses :: "data_layer \<Rightarrow> data_layer" where
  "clearAllCourses s = saveToStorage (s\<lparr>courses := []\<rparr>)"

definition getAllCourses :: "data_layer \<Rightarrow> course list" where
  "getAllCourses s = courses s"

section \<open>Processing layer: \<open>GPAProcessor\<close>\<close>

text \<open>
  The table \<open>gradePoints\<close>. A numeric literal of the source denotes the binary64 value
  nearest to its decimal value.
\<close>

definition gradePoints :: "string \<rightharpoonup> jsnum" where
  "gradePoints = map_of
     [(''4.0'', rnd 4), (''3.7'', rnd (37 / 10)), (''3.3'', rnd (33 / 10)), (''3.0'', rnd 3),
      (''2.7'', rnd (27 / 10)), (''2.3'', rnd (23 / 10)), (''2.0'', rnd 2), (''1.7'', rnd (17 / 10)),
      (''1.3'', rnd (13 / 10)), (''1.0'', rnd 1), (''0.0'', rnd 0)]"

text \<open>
  \<open>parseFloat\<close> on a field. A number is first converted to a string and read back, which
  returns the number itself: \<open>Number::toString\<close> writes digits that identify it.
  \<open>null\<close> becomes the text \<open>null\<close>, which has no numeric prefix.
\<close>

fun parseFloat :: "jsval \<Rightarrow> jsnum" where
  "parseFloat (JNumber x) = x"
| "parseFloat (JString s) = parseFloat_string s"
| "parseFloat JNull = NaN"

record aggregate =
  gpa :: jsval
  totalCredits :: jsnum
  totalPoints :: jsval
  courseCount :: nat

text \<open>The body of the \<open>forEach\<close> loop, on the pair \<open>(totalCredits, totalPoints)\<close>.\<close>

definition accumulate :: "jsnum \<times> jsnum \<Rightarrow> course \<Rightarrow> jsnum \<times> jsnum" where
  "accumulate acc c =
     (js_add (fst acc) (parseFloat (credits c)),
      js_add (snd acc) (js_mul (parseFloat (credits c)) (parseFloat (JString (grade c)))))"

definition totals :: "course list \<Rightarrow> jsnum \<times> jsnum" where
  "totals cs = foldl accumulate (Fin 0, Fin 0) cs"

definition quotient :: "jsnum \<times> jsnum \<Rightarrow> jsnum" where
  "quotient t = (if js_gt_zero (fst t) then js_div (snd t) (fst t) else Fin 0)"

definition calculateGPA :: "course list \<Rightarrow> aggregate" where
  "calculateGPA cs =
     (if length cs = 0
      then \<lparr>gpa = JNumber (Fin 0), totalCredits = Fin 0, totalPoints = JNumber (Fin 0),
            courseCount = 0\<rparr>
      else \<lparr>gpa = JString (toFixed2 (quotient (totals cs))),
            totalCredits = fst (totals cs),
            totalPoints = JString (toFixed2 (snd (totals cs))),
            courseCount = length cs\<rparr>)"

text \<open>
  \<open>validateCourse\<close>, called with a string, a number and a string, as
  \<open>addCourseHandler\<close> calls it.
\<close>

definition validateCourse :: "string \<Rightarrow> jsnum \<Rightarrow> string \<Rightarrow> string list" where
  "validateCourse nm cr gr =
     (if trim nm = [] then [''Course name is required''] else []) @
     (if isNaN cr \<or> js_le_zero cr then [''Credits must be a positive number''] else []) @
     (if gradePoints gr = None then [''Invalid grade selected''] else [])"

text \<open>
  The key under which \<open>hasOwnProperty\<close> looks its argument up: a string is its own
  key, a number is converted by \<open>Number::toString\<close>, \<open>null\<close> becomes the text
  \<open>null\<close>.
\<close>

fun property_key :: "jsval \<Rightarrow> string" where
  "property_key (JString s) = s"
| "property_key (JNumber x) = Number_toString x"
| "property_key JNull = ''null''"

text \<open>
  \<open>validateCourse\<close> with a grade that is a string, a number or \<open>null\<close>.
  \<open>validateCourse\<close> above is this function on a string grade.
\<close>

definition validateCourse_any :: "string \<Rightarrow> jsnum \<Rightarrow> jsval \<Rightarrow> string list" where
  "validateCourse_any nm cr g =
     (if trim nm = [] then [''Course name is required''] else []) @
     (if isNaN cr \<or> js_le_zero cr then [''Credits must be a positive number''] else []) @
     (if gradePoints (property_key g) = None then [''Invalid grade selected''] else [])"

section \<open>User interface layer: adding a course\<close>

text \<open>\<open>errors.join('\n')\<close>.\<close>

fun join_lines :: "string list \<Rightarrow> string" where
  "join_lines [] = []"
| "join_lines [l] = l"
| "join_lines (l # ls) = l @ CHR 0x0A # join_lines ls"

text \<open>
  \<open>addCourseHandler\<close> on the values of the three form inputs. It returns the text of
  the alert, if one is shown, and the data layer; rendering is left out.
\<close>

definition addCourseHandler ::
  "string \<Rightarrow> string \<Rightarrow> string \<Rightarrow> data_layer \<Rightarrow> string option \<times> data_layer" where
  "addCourseHandler nameValue creditsValue gradeValue s =
     (if length (validateCourse (trim nameValue) (parseFloat_string creditsValue) gradeValue) > 0
      then (Some (''Please fix the following errors:'' @ CHR 0x0A #
                  join_lines (validateCourse (trim nameValue) (parseFloat_string creditsValue)
                                gradeValue)), s)
      else (None, addCourse \<lparr>name = trim nameValue,
                              credits = JNumber (parseFloat_string creditsValue),
                              grade = gradeValue\<rparr> s))"

section \<open>Predicates and sums used in the statements\<close>

text \<open>
  A course as the specification's data model describes it: a name that is not blank, a
  finite positive number of credits, a grade token of the table.
\<close>

definition valid_course :: "course \<Rightarrow> bool" where
  "valid_course c =
     (trim (name c) \<noteq> [] \<and>
      (case credits c of JNumber (Fin r) \<Rightarrow> 0 < r | _ \<Rightarrow> False) \<and>
      gradePoints (grade c) \<noteq> None)"

text \<open>
  A course whose credits \<open>JSON.stringify\<close> writes without loss: anything but a
  non-finite number.
\<close>

definition storable :: "course \<Rightarrow> bool" where
  "storable c = (case credits c of JNumber x \<Rightarrow> is_finite x | _ \<Rightarrow> True)"

text \<open>
  A course as \<open>addCourseHandler\<close> stores it: numeric credits, and
  \<open>validateCourse\<close> reports no error on its three fields.
\<close>

definition passed_validation :: "course \<Rightarrow> bool" where
  "passed_validation c =
     (case credits c of JNumber x \<Rightarrow> validateCourse (name c) x (grade c) = [] | _ \<Rightarrow> False)"

text \<open>
  The sums the specification names: the credits, and the credits times the grade-point
  value that the table gives for the grade, both added from left to right starting from
  zero.
\<close>

definition sum_credits :: "course list \<Rightarrow> jsnum" where
  "sum_credits cs = foldl js_add (Fin 0) (map (\<lambda>c. parseFloat (credits c)) cs)"

definition sum_points :: "course list \<Rightarrow> jsnum" where
  "sum_points cs =
     foldl js_add (Fin 0)
       (map (\<lambda>c. js_mul (parseFloat (credits c)) (the (gradePoints (grade c)))) cs)"

text \<open>
  \<open>exact_sum a xs\<close>: adding the numbers \<open>xs\<close> to \<open>a\<close> from left to right, every
  number is finite and no addition rounds. \<open>exact_totals\<close> says so of the two running
  sums of \<open>calculateGPA\<close>.
\<close>

fun exact_sum :: "rat \<Rightarrow> jsnum list \<Rightarrow> bool" where
  "exact_sum a [] = True"
| "exact_sum a (x # xs) =
     (case x of Fin b \<Rightarrow> rnd (a + b) = Fin (a + b) \<and> exact_sum (a + b) xs | _ \<Rightarrow> False)"

definition exact_totals :: "course list \<Rightarrow> bool" where
  "exact_totals cs =
     (exact_sum 0 (map (\<lambda>c. parseFloat (credits c)) cs) \<and>
      exact_sum 0 (map (\<lambda>c. js_mul (parseFloat (credits c)) (parseFloat (JString (grade c)))) cs))"

fun fin_value :: "jsnum \<Rightarrow> rat" where
  "fin_value (Fin b) = b"
| "fin_value _ = 0"

section \<open>Evaluation rules\<close>

text \<open>
  Rules that let the simplifier evaluate the functions above on numerals; the recursive
  ones unfold on literals only.
\<close>

lemma floor_rat_numeral [simp]:
  "\<lfloor>numeral a / numeral b :: rat\<rfloor> = numeral a div numeral b"
  "\<lfloor>1 / numeral b :: rat\<rfloor> = 1 div numeral b"
  using floor_divide_of_int_eq [of "numeral a" "numeral b", where ?'a = rat]
    floor_divide_of_int_eq [of 1 "numeral b", where ?'a = rat]
  by simp_all

lemma ceiling_rat_numeral [simp]:
  "\<lceil>numeral a / numeral b :: rat\<rceil> = - (- numeral a div numeral b)"
  "\<lceil>1 / numeral b :: rat\<rceil> = - (- 1 div numeral b)"
  using floor_divide_of_int_eq [of "- numeral a" "numeral b", where ?'a = rat]
    floor_divide_of_int_eq [of "- 1" "numeral b", where ?'a = rat]
  by (simp_all add: ceiling_def)

lemma bit_length_eval:
  "bit_length 0 = 0"
  "bit_length 1 = 1"
  "bit_length (numeral k) = 1 + bit_length (numeral k div 2)"
  "bit_length (- numeral k) = 0"
  by (subst bit_length.simps, simp)+

lemma ipow_eval:
  "ipow b 0 = 1"
  "ipow b 1 = b"
  "ipow b (numeral k) =
     (if even (numeral k :: int) then square (ipow b (numeral k div 2))
      else b * square (ipow b (numeral k div 2)))"
  by (subst ipow.simps, simp add: square_def ipow.simps [of b 0])+

lemma decimal_digits_eval:
  "decimal_digits 0 = []"
  "decimal_digits 1 = ''1''"
  "decimal_digits (numeral k) =
     decimal_digits (numeral k div 10) @ [''0123456789'' ! nat (numeral k mod 10)]"
  by (subst decimal_digits.simps, simp add: decimal_digits.simps [of 0])+

lemma shortest_decimal_eval:
  "1 \<le> k \<Longrightarrow> k \<le> 17 \<Longrightarrow> shortest_decimal x n k =
     (if rnd (of_int \<lfloor>x / pow10 (n - k)\<rfloor> * pow10 (n - k)) = Fin x then
        (if rnd (of_int (\<lfloor>x / pow10 (n - k)\<rfloor> + 1) * pow10 (n - k)) = Fin x
         then closer x (pow10 (n - k)) (of_int \<lfloor>x / pow10 (n - k)\<rfloor> * pow10 (n - k))
                (of_int (\<lfloor>x / pow10 (n - k)\<rfloor> + 1) * pow10 (n - k))
         else of_int \<lfloor>x / pow10 (n - k)\<rfloor> * pow10 (n - k))
      else if rnd (of_int (\<lfloor>x / pow10 (n - k)\<rfloor> + 1) * pow10 (n - k)) = Fin x
        then of_int (\<lfloor>x / pow10 (n - k)\<rfloor> + 1) * pow10 (n - k)
      else shortest_decimal x n (k + 1))"
  "17 < k \<Longrightarrow> shortest_decimal x n k = x"
  by (subst shortest_decimal.simps, simp)+

lemmas num_eval = rnd_def rnd_in_binade_def assemble_def round_half_even_def half_even_def
  ilog2_def pow2_def pow10_def square_def bit_length_eval ipow_eval

lemmas text_eval = is_whitespace_def trim_start_def trim_def is_digit_def digit_val_def
  digits_val_def int_part_def after_int_def has_point_def frac_part_def after_mantissa_def
  signed_integer_def exponent_part_def decimal_value_def unsigned_value_def
  parseFloat_string_def

lemma replicate_eval:
  "replicate (numeral k) x = x # replicate (pred_numeral k) x"
  by (simp add: numeral_eq_Suc)

lemmas toString_eval = decimal_exponent_def format_number_def format_digits_def
  scaled_digits_def toString_at_def replicate_eval

lemmas fixed_eval = integer_string_def decimal_digits_eval pad3_def fixed2_digits_def
  toFixed2_magnitude_def strip_zeros_def exponential_form_def toString_large_def closer_def
  shortest_decimal_eval



lemmas proc_eval = calculateGPA_def totals_def accumulate_def quotient_def

section \<open>Facts about the grade table\<close>

lemma gradePoints_dom:
  "dom gradePoints =
     {''4.0'', ''3.7'', ''3.3'', ''3.0'', ''2.7'', ''2.3'', ''2.0'', ''1.7'', ''1.3'', ''1.0'', ''0.0''}"
  unfolding gradePoints_def by (simp only: dom_map_of_conv_image_fst) simp

lemma gradePoints_None:
  "(gradePoints g = None) =
     (g \<notin> {''4.0'', ''3.7'', ''3.3'', ''3.0'', ''2.7'', ''2.3'', ''2.0'', ''1.7'', ''1.3'', ''1.0'', ''0.0''})"
  using gradePoints_dom by (metis domIff)

lemma gradePoints_cases:
  assumes "gradePoints g = Some v"
  shows "(g, v) \<in> {(''4.0'', rnd 4), (''3.7'', rnd (37 / 10)), (''3.3'', rnd (33 / 10)),
      (''3.0'', rnd 3), (''2.7'', rnd (27 / 10)), (''2.3'', rnd (23 / 10)), (''2.0'', rnd 2),
      (''1.7'', rnd (17 / 10)), (''1.3'', rnd (13 / 10)), (''1.0'', rnd 1), (''0.0'', rnd 0)}"
  using map_of_SomeD [OF assms [unfolded gradePoints_def]] by simp

lemma parseFloat_token:
  "parseFloat_string ''4.0'' = rnd 4" "parseFloat_string ''3.7'' = rnd (37 / 10)"
  "parseFloat_string ''3.3'' = rnd (33 / 10)" "parseFloat_string ''3.0'' = rnd 3"
  "parseFloat_string ''2.7'' = rnd (27 / 10)" "parseFloat_string ''2.3'' = rnd (23 / 10)"
  "parseFloat_string ''2.0'' = rnd 2" "parseFloat_string ''1.7'' = rnd (17 / 10)"
  "parseFloat_string ''1.3'' = rnd (13 / 10)" "parseFloat_string ''1.0'' = rnd 1"
  "parseFloat_string ''0.0'' = rnd 0"
  by (simp_all add: text_eval pow10_def ipow_eval square_def)

lemma rnd_token_range:
  "(case rnd 4 of Fin r \<Rightarrow> 0 \<le> r \<and> r \<le> 4 | _ \<Rightarrow> False)" "(case rnd (37 / 10) of Fin r \<Rightarrow> 0 \<le> r \<and> r \<le> 4 | _ \<Rightarrow> False)"
  "(case rnd (33 / 10) of Fin r \<Rightarrow> 0 \<le> r \<and> r \<le> 4 | _ \<Rightarrow> False)" "(case rnd 3 of Fin r \<Rightarrow> 0 \<le> r \<and> r \<le> 4 | _ \<Rightarrow> False)"
  "(case rnd (27 / 10) of Fin r \<Rightarrow> 0 \<le> r \<and> r \<le> 4 | _ \<Rightarrow> False)" "(case rnd (23 / 10) of Fin r \<Rightarrow> 0 \<le> r \<and> r \<le> 4 | _ \<Rightarrow> False)"
  "(case rnd 2 of Fin r \<Rightarrow> 0 \<le> r \<and> r \<le> 4 | _ \<Rightarrow> False)" "(case rnd (17 / 10) of Fin r \<Rightarrow> 0 \<le> r \<and> r \<le> 4 | _ \<Rightarrow> False)"
  "(case rnd (13 / 10) of Fin r \<Rightarrow> 0 \<le> r \<and> r \<le> 4 | _ \<Rightarrow> False)" "(case rnd 1 of Fin r \<Rightarrow> 0 \<le> r \<and> r \<le> 4 | _ \<Rightarrow> False)"
  "(case rnd 0 of Fin r \<Rightarrow> 0 \<le> r \<and> r \<le> 4 | _ \<Rightarrow> False)"
  by (simp_all add: num_eval)

lemma gradePoints_parseFloat:
  assumes "gradePoints g = Some v"
  shows "parseFloat_string g = v"
  using gradePoints_cases [OF assms] parseFloat_token by auto

lemma gradePoints_range:
  assumes "gradePoints g = Some v"
  shows "case v of Fin r \<Rightarrow> 0 \<le> r \<and> r \<le> 4 | _ \<Rightarrow> False"
  using gradePoints_cases [OF assms] rnd_token_range by auto

section \<open>Facts about \<open>splice\<close>\<close>

lemma splice1_beyond:
  assumes "int (length xs) \<le> i \<or> xs = []"
  shows "splice1 i xs = xs"
  using assms by (auto simp: splice1_def actual_start_def delete_count_def)

lemma splice1_from_end:
  assumes "- int (length xs) \<le> i" and "i \<le> - 1"
  shows "splice1 i xs = take (nat (int (length xs) + i)) xs @ drop (Suc (nat (int (length xs) + i))) xs"
proof -
  have s: "actual_start i (int (length xs)) = int (length xs) + i"
    using assms by (simp add: actual_start_def)
  have d: "delete_count (int (length xs) + i) (int (length xs)) = 1"
    using assms by (simp add: delete_count_def)
  have n: "nat (int (length xs) + i + 1) = Suc (nat (int (length xs) + i))"
    using assms by simp
  show ?thesis
    unfolding splice1_def s d n ..
qed

section \<open>The empty course list\<close>

text \<open>
  Claim C2. \<open>calculateGPA\<close> on the empty array returns the object
  \<open>{gpa: 0, totalCredits: 0, totalPoints: 0, courseCount: 0}\<close>: the four fields are
  the number zero, neither a string nor an undefined value, and no exception is raised.
\<close>

theorem calculateGPA_empty:
  "calculateGPA [] =
     \<lparr>gpa = JNumber (Fin 0), totalCredits = Fin 0, totalPoints = JNumber (Fin 0),
      courseCount = 0\<rparr>"
  by (simp add: calculateGPA_def)

section \<open>Validation\<close>

text \<open>
  Claim C4. \<open>validateCourse\<close> runs its three checks independently of each other:
  each message is in the result exactly when its own check fails, whatever the other two
  arguments are, and the result is empty exactly when all three checks pass. On
  \<open>("", 3, "4.0")\<close>, \<open>("CS101", -1, "4.0")\<close> and \<open>("CS101", 3, "9.9")\<close> it returns
  the one message of the failing check, and on \<open>("", -1, "9.9")\<close> all three.
\<close>

theorem validateCourse_all_errors:
  "((''Course name is required'' \<in> set (validateCourse nm cr gr)) = (trim nm = [])) \<and>
   ((''Credits must be a positive number'' \<in> set (validateCourse nm cr gr)) =
      (isNaN cr \<or> js_le_zero cr)) \<and>
   ((''Invalid grade selected'' \<in> set (validateCourse nm cr gr)) = (gradePoints gr = None)) \<and>
   ((validateCourse nm cr gr = []) =
      (trim nm \<noteq> [] \<and> \<not> isNaN cr \<and> \<not> js_le_zero cr \<and> gradePoints gr \<noteq> None)) \<and>
   validateCourse '''' (Fin 3) ''4.0'' = [''Course name is required''] \<and>
   validateCourse ''CS101'' (Fin (- 1)) ''4.0'' = [''Credits must be a positive number''] \<and>
   validateCourse ''CS101'' (Fin 3) ''9.9'' = [''Invalid grade selected''] \<and>
   validateCourse '''' (Fin (- 1)) ''9.9'' =
     [''Course name is required'', ''Credits must be a positive number'',
      ''Invalid grade selected'']"
  by (simp add: validateCourse_def gradePoints_None trim_def is_whitespace_def)

text \<open>
  Claim C5, as amended. \<open>validateCourse\<close> reports "Credits must be a positive number"
  exactly when the credits are \<open>NaN\<close>, zero, negative or \<open>-Infinity\<close>. Every positive
  number is accepted, \<open>+Infinity\<close> included: the check is
  \<open>isNaN(credits) || credits <= 0\<close> and does not test finiteness.
\<close>

theorem validateCourse_credits:
  "(''Credits must be a positive number'' \<in> set (validateCourse nm cr gr)) =
     (case cr of Fin r \<Rightarrow> r \<le> 0 | PInf \<Rightarrow> False | NInf \<Rightarrow> True | NaN \<Rightarrow> True)"
  by (cases cr) (simp_all add: validateCourse_def)

text \<open>
  The claim as the specification states it asks for the message whenever the credits are
  not a finite positive number. On \<open>+Infinity\<close> the message is not reported.
\<close>

theorem validateCourse_infinity_counterexample:
  "\<not> ((''Credits must be a positive number'' \<in> set (validateCourse ''CS101'' PInf ''4.0'')) =
       (\<not> (is_finite PInf \<and> js_gt_zero PInf)))"
  by (simp add: validateCourse_def gradePoints_None trim_def is_whitespace_def)

section \<open>Removing a course\<close>

text \<open>
  Claim C3, as amended. For every state and every index that is out of bounds (any index
  when the array is empty, or an index greater than or equal to its length),
  \<open>removeCourse\<close> returns normally: \<open>splice\<close> removes nothing, the array of courses is
  unchanged, and the unchanged array is written to storage again. No error is signalled.
\<close>

theorem removeCourse_out_of_range:
  assumes "courses s = [] \<or> int (length (courses s)) \<le> i"
  shows "courses (removeCourse i s) = courses s \<and>
         localStorage (removeCourse i s) = Some (JSON_stringify (courses s))"
  using assms splice1_beyond [of "courses s" i]
  by (auto simp: removeCourse_def saveToStorage_def)

text \<open>Index 1 on a store that holds one course.\<close>

theorem removeCourse_out_of_range_witness:
  "(courses \<lparr>courses = [\<lparr>name = ''CS101'', credits = JNumber (Fin 3), grade = ''4.0''\<rparr>],
             localStorage = None\<rparr> = [] \<or>
    int (length (courses \<lparr>courses = [\<lparr>name = ''CS101'', credits = JNumber (Fin 3), grade = ''4.0''\<rparr>],
             localStorage = None\<rparr>)) \<le> 1) \<and>
   courses (removeCourse 1 \<lparr>courses = [\<lparr>name = ''CS101'', credits = JNumber (Fin 3), grade = ''4.0''\<rparr>],
             localStorage = None\<rparr>) =
     [\<lparr>name = ''CS101'', credits = JNumber (Fin 3), grade = ''4.0''\<rparr>]"
  using removeCourse_out_of_range
    [of "\<lparr>courses = [\<lparr>name = ''CS101'', credits = JNumber (Fin 3), grade = ''4.0''\<rparr>],
          localStorage = None\<rparr>" 1]
  by simp

text \<open>
  The claim as the specification states it asks for a failure with \<open>IndexOutOfRange\<close>.
  On the empty store with index 0 the call returns the next state, in which the empty
  array has been written to storage.
\<close>

theorem removeCourse_out_of_range_counterexample:
  "removeCourse 0 \<lparr>courses = [], localStorage = None\<rparr> =
     \<lparr>courses = [], localStorage = Some (ArrayText [])\<rparr>"
  by (simp add: removeCourse_def saveToStorage_def splice1_def JSON_stringify_def)

text \<open>
  Claim C10. On a non-empty array and a negative index \<open>i\<close> with
  \<open>-length \<le> i \<le> -1\<close>, \<open>removeCourse\<close> removes the element at position
  \<open>length + i\<close>, counted from the start: the array becomes one element shorter and the
  new array is written to storage. With \<open>i = -1\<close> the last course is removed.
\<close>

theorem removeCourse_negative_index:
  assumes "courses s \<noteq> []"
    and "- int (length (courses s)) \<le> i" and "i \<le> - 1"
  shows "courses (removeCourse i s) =
           take (nat (int (length (courses s)) + i)) (courses s) @
           drop (Suc (nat (int (length (courses s)) + i))) (courses s) \<and>
         length (courses (removeCourse i s)) = length (courses s) - 1 \<and>
         (i = - 1 \<longrightarrow> courses (removeCourse i s) = butlast (courses s)) \<and>
         localStorage (removeCourse i s) = Some (JSON_stringify (courses (removeCourse i s)))"
proof -
  let ?cs = "courses s"
  let ?k = "nat (int (length ?cs) + i)"
  have c: "courses (removeCourse i s) = take ?k ?cs @ drop (Suc ?k) ?cs"
    using splice1_from_end [OF assms(2,3)] by (simp add: removeCourse_def saveToStorage_def)
  have k: "?k < length ?cs"
    using assms by auto
  have l: "length (courses (removeCourse i s)) = length ?cs - 1"
    unfolding c using k by auto
  have b: "i = - 1 \<longrightarrow> courses (removeCourse i s) = butlast ?cs"
  proof
    assume "i = - 1"
    then have "?k = length ?cs - 1"
      by auto
    then show "courses (removeCourse i s) = butlast ?cs"
      unfolding c using assms(1) by (simp add: butlast_conv_take)
  qed
  have p: "localStorage (removeCourse i s) = Some (JSON_stringify (courses (removeCourse i s)))"
    by (simp add: removeCourse_def saveToStorage_def)
  from c l b p show ?thesis by blast
qed

text \<open>Index \<open>-1\<close> on a store of two courses leaves the first one.\<close>

theorem removeCourse_negative_index_witness:
  "courses (removeCourse (- 1)
     \<lparr>courses = [\<lparr>name = ''CS101'', credits = JNumber (Fin 3), grade = ''4.0''\<rparr>,
                 \<lparr>name = ''MA201'', credits = JNumber (Fin 4), grade = ''3.0''\<rparr>],
      localStorage = None\<rparr>) =
     [\<lparr>name = ''CS101'', credits = JNumber (Fin 3), grade = ''4.0''\<rparr>]"
  using removeCourse_negative_index
    [of "\<lparr>courses = [\<lparr>name = ''CS101'', credits = JNumber (Fin 3), grade = ''4.0''\<rparr>,
                 \<lparr>name = ''MA201'', credits = JNumber (Fin 4), grade = ''3.0''\<rparr>],
      localStorage = None\<rparr>" "- 1"]
  by simp

section \<open>Persistence\<close>

lemma valid_course_storable:
  assumes "valid_course c"
  shows "storable c"
  using assms
  by (auto simp: valid_course_def storable_def split: jsval.splits jsnum.splits)

lemma stringify_storable:
  assumes "storable c"
  shows "c\<lparr>credits := stringify_value (credits c)\<rparr> = c"
  using assms by (cases "credits c") (simp_all add: storable_def stringify_value_def)

lemma JSON_stringify_storable:
  assumes "\<forall>c\<in>set cs. storable c"
  shows "JSON_stringify cs = ArrayText cs"
  using assms unfolding JSON_stringify_def
  by (simp add: stringify_storable map_idI)

text \<open>
  Claim C6, as amended. For every valid course \<open>c\<close> and every store whose current
  courses have credits that JSON can represent (a finite number, a string or \<open>null\<close>),
  \<open>addCourse c\<close> followed by loading a fresh instance from the same storage yields
  the previous in-memory sequence with \<open>c\<close> appended; on an initially empty store it
  yields exactly \<open>[c]\<close>.
\<close>

theorem add_then_load:
  assumes "valid_course c" and "\<forall>x\<in>set (courses s). storable x"
  shows "loadFromStorage (localStorage (addCourse c s)) = Inr (courses s @ [c]) \<and>
         new_GPADataLayer (localStorage (addCourse c s)) =
           Inr \<lparr>courses = courses s @ [c], localStorage = localStorage (addCourse c s)\<rparr> \<and>
         (courses s = [] \<longrightarrow> loadFromStorage (localStorage (addCourse c s)) = Inr [c])"
proof -
  have "\<forall>x\<in>set (courses s @ [c]). storable x"
    using assms valid_course_storable by auto
  then have t: "JSON_stringify (courses s @ [c]) = ArrayText (courses s @ [c])"
    by (rule JSON_stringify_storable)
  have l: "loadFromStorage (localStorage (addCourse c s)) = Inr (courses s @ [c])"
    by (simp add: addCourse_def saveToStorage_def loadFromStorage_def t)
  then show ?thesis
    by (simp add: new_GPADataLayer_def)
qed

text \<open>Adding a three-credit course to the empty store and loading it back.\<close>

theorem add_then_load_witness:
  "loadFromStorage (localStorage (addCourse
       \<lparr>name = ''CS101'', credits = JNumber (Fin 3), grade = ''4.0''\<rparr>
       \<lparr>courses = [], localStorage = None\<rparr>)) =
     Inr [\<lparr>name = ''CS101'', credits = JNumber (Fin 3), grade = ''4.0''\<rparr>]"
proof -
  have v: "valid_course \<lparr>name = ''CS101'', credits = JNumber (Fin 3), grade = ''4.0''\<rparr>"
    by (simp add: valid_course_def gradePoints_None trim_def is_whitespace_def)
  have e: "\<forall>x\<in>set (courses \<lparr>courses = [], localStorage = None\<rparr>). storable x"
    by simp
  from add_then_load [OF v e] show ?thesis by simp
qed

text \<open>
  The claim as the specification states it holds of every store. A store that holds a
  course with \<open>Infinity\<close> credits (which \<open>validateCourse\<close> accepts) loses them on
  the way: \<open>JSON.stringify\<close> writes \<open>null\<close>, so the loaded sequence differs from the
  in-memory one.
\<close>

theorem add_then_load_counterexample:
  "valid_course \<lparr>name = ''CS101'', credits = JNumber (Fin 3), grade = ''4.0''\<rparr> \<and>
   loadFromStorage (localStorage (addCourse
       \<lparr>name = ''CS101'', credits = JNumber (Fin 3), grade = ''4.0''\<rparr>
       (addCourse \<lparr>name = ''Math'', credits = JNumber PInf, grade = ''4.0''\<rparr>
          \<lparr>courses = [], localStorage = None\<rparr>))) =
     Inr [\<lparr>name = ''Math'', credits = JNull, grade = ''4.0''\<rparr>,
          \<lparr>name = ''CS101'', credits = JNumber (Fin 3), grade = ''4.0''\<rparr>] \<and>
   loadFromStorage (localStorage (addCourse
       \<lparr>name = ''CS101'', credits = JNumber (Fin 3), grade = ''4.0''\<rparr>
       (addCourse \<lparr>name = ''Math'', credits = JNumber PInf, grade = ''4.0''\<rparr>
          \<lparr>courses = [], localStorage = None\<rparr>))) \<noteq>
     Inr (courses (addCourse \<lparr>name = ''Math'', credits = JNumber PInf, grade = ''4.0''\<rparr>
          \<lparr>courses = [], localStorage = None\<rparr>) @
          [\<lparr>name = ''CS101'', credits = JNumber (Fin 3), grade = ''4.0''\<rparr>])"
  by (simp add: valid_course_def gradePoints_None trim_def is_whitespace_def addCourse_def
      saveToStorage_def loadFromStorage_def JSON_stringify_def stringify_value_def)

section \<open>The store and validation\<close>

lemma set_splice1:
  "set (splice1 i xs) \<subseteq> set xs"
  unfolding splice1_def
  using set_take_subset [of _ xs] set_drop_subset [of _ xs] by auto

lemma addCourseHandler_courses:
  "courses (snd (addCourseHandler nv cv gv s)) =
     (if validateCourse (trim nv) (parseFloat_string cv) gv = [] then
        courses s @ [\<lparr>name = trim nv, credits = JNumber (parseFloat_string cv), grade = gv\<rparr>]
      else courses s)"
  by (simp add: addCourseHandler_def addCourse_def saveToStorage_def)

lemma parseFloat_3: "parseFloat_string ''3'' = Fin 3"
  by (simp add: text_eval num_eval)

text \<open>
  Claim C9, as amended. Validation is done by \<open>addCourseHandler\<close>, not by the data
  layer: a record that the handler adds has passed \<open>validateCourse\<close> (a name that is not
  blank after trimming, credits that are neither \<open>NaN\<close> nor \<open>\<le> 0\<close>, a grade of the
  table). If every stored record has passed it, so has every record after
  \<open>addCourseHandler\<close>, after \<open>removeCourse\<close> and after \<open>clearAllCourses\<close>.
  \<open>addCourse\<close> and \<open>loadFromStorage\<close> check nothing.
\<close>

theorem validation_preserved:
  assumes "\<forall>c\<in>set (courses s). passed_validation c"
  shows "(\<forall>c\<in>set (courses (snd (addCourseHandler nv cv gv s))). passed_validation c) \<and>
         (\<forall>c\<in>set (courses (removeCourse i s)). passed_validation c) \<and>
         (\<forall>c\<in>set (courses (clearAllCourses s)). passed_validation c)"
proof -
  have a: "\<forall>c\<in>set (courses (snd (addCourseHandler nv cv gv s))). passed_validation c"
    using assms by (auto simp: addCourseHandler_courses passed_validation_def)
  have r: "\<forall>c\<in>set (courses (removeCourse i s)). passed_validation c"
    using assms set_splice1 [of i "courses s"]
    by (auto simp: removeCourse_def saveToStorage_def)
  have c: "\<forall>c\<in>set (courses (clearAllCourses s)). passed_validation c"
    by (simp add: clearAllCourses_def saveToStorage_def)
  from a r c show ?thesis by blast
qed

text \<open>The form values \<open>" CS101 "\<close>, \<open>"3"\<close>, \<open>"4.0"\<close> on the empty store.\<close>

theorem validation_preserved_witness:
  "courses (snd (addCourseHandler '' CS101 '' ''3'' ''4.0'' \<lparr>courses = [], localStorage = None\<rparr>)) =
     [\<lparr>name = ''CS101'', credits = JNumber (Fin 3), grade = ''4.0''\<rparr>] \<and>
   passed_validation \<lparr>name = ''CS101'', credits = JNumber (Fin 3), grade = ''4.0''\<rparr>"
proof -
  have e: "\<forall>c\<in>set (courses \<lparr>courses = [], localStorage = None\<rparr>). passed_validation c"
    by simp
  have t: "trim '' CS101 '' = ''CS101''"
    by (simp add: trim_def is_whitespace_def)
  have v: "validateCourse ''CS101'' (Fin 3) ''4.0'' = []"
    by (simp add: validateCourse_def gradePoints_None t trim_def is_whitespace_def)
  have c: "courses (snd (addCourseHandler '' CS101 '' ''3'' ''4.0'' \<lparr>courses = [], localStorage = None\<rparr>)) =
     [\<lparr>name = ''CS101'', credits = JNumber (Fin 3), grade = ''4.0''\<rparr>]"
    by (simp add: addCourseHandler_courses parseFloat_3 t v)
  from validation_preserved [OF e, of "'' CS101 ''" "''3''" "''4.0''"] c show ?thesis
    by simp
qed

text \<open>
  The claim as the specification states it holds of every operation of the store.
  \<open>addCourse\<close> stores a record on which all three checks fail, and a fresh instance
  loads such a record from storage.
\<close>

theorem validation_preserved_counterexample:
  "courses (addCourse \<lparr>name = '''', credits = JNumber (Fin (- 1)), grade = ''9.9''\<rparr>
              \<lparr>courses = [], localStorage = None\<rparr>) =
     [\<lparr>name = '''', credits = JNumber (Fin (- 1)), grade = ''9.9''\<rparr>] \<and>
   new_GPADataLayer (Some (ArrayText [\<lparr>name = '''', credits = JNumber (Fin (- 1)), grade = ''9.9''\<rparr>])) =
     Inr \<lparr>courses = [\<lparr>name = '''', credits = JNumber (Fin (- 1)), grade = ''9.9''\<rparr>],
          localStorage = Some (ArrayText [\<lparr>name = '''', credits = JNumber (Fin (- 1)), grade = ''9.9''\<rparr>])\<rparr> \<and>
   validateCourse '''' (Fin (- 1)) ''9.9'' =
     [''Course name is required'', ''Credits must be a positive number'',
      ''Invalid grade selected''] \<and>
   \<not> passed_validation \<lparr>name = '''', credits = JNumber (Fin (- 1)), grade = ''9.9''\<rparr>"
  by (simp add: addCourse_def saveToStorage_def new_GPADataLayer_def loadFromStorage_def
      passed_validation_def validateCourse_def gradePoints_None trim_def is_whitespace_def)

section \<open>The totals\<close>

lemma foldl_accumulate:
  "foldl accumulate (a, b) cs =
     (foldl js_add a (map (\<lambda>c. parseFloat (credits c)) cs),
      foldl js_add b
        (map (\<lambda>c. js_mul (parseFloat (credits c)) (parseFloat (JString (grade c)))) cs))"
  by (induction cs arbitrary: a b) (simp_all add: accumulate_def)

lemma totals_sums:
  assumes "\<forall>c\<in>set cs. gradePoints (grade c) \<noteq> None"
  shows "totals cs = (sum_credits cs, sum_points cs)"
proof -
  have m: "map (\<lambda>c. js_mul (parseFloat (credits c)) (parseFloat (JString (grade c)))) cs =
        map (\<lambda>c. js_mul (parseFloat (credits c)) (the (gradePoints (grade c)))) cs"
  proof (rule map_cong [OF refl])
    fix c assume "c \<in> set cs"
    then obtain v where "gradePoints (grade c) = Some v"
      using assms by auto
    then show "js_mul (parseFloat (credits c)) (parseFloat (JString (grade c))) =
        js_mul (parseFloat (credits c)) (the (gradePoints (grade c)))"
      using gradePoints_parseFloat by simp
  qed
  show ?thesis
    unfolding totals_def foldl_accumulate sum_credits_def sum_points_def m ..
qed

lemma example_result:
  "calculateGPA [\<lparr>name = ''CS101'', credits = JNumber (Fin 3), grade = ''4.0''\<rparr>,
                 \<lparr>name = ''MA201'', credits = JNumber (Fin 3), grade = ''3.0''\<rparr>] =
     \<lparr>gpa = JString ''3.50'', totalCredits = Fin 6, totalPoints = JString ''21.00'',
      courseCount = 2\<rparr>"
  by (simp add: proc_eval parseFloat_token num_eval fixed_eval)

text \<open>
  Claim C1, as amended. For every non-empty sequence of courses whose grades are tokens
  of the table, \<open>calculateGPA\<close> returns: as \<open>totalCredits\<close> the sum of the credits; as
  \<open>totalPoints\<close> the sum of credits times grade-point value (both sums added from left
  to right in binary64 arithmetic), rounded to two decimals
  and written as a string by \<open>toFixed(2)\<close>; as \<open>gpa\<close> the quotient of the two unrounded
  sums when \<open>totalCredits > 0\<close> and zero otherwise, also through \<open>toFixed(2)\<close>; as
  \<open>courseCount\<close> the length. For the courses \<open>{credits: 3, grade: "4.0"}\<close> and
  \<open>{credits: 3, grade: "3.0"}\<close> it returns \<open>totalCredits = 6\<close>,
  \<open>totalPoints = "21.00"\<close>, \<open>gpa = "3.50"\<close>, \<open>courseCount = 2\<close>.
\<close>

theorem calculateGPA_totals:
  assumes "cs \<noteq> []" and "\<forall>c\<in>set cs. gradePoints (grade c) \<noteq> None"
  shows "totalCredits (calculateGPA cs) = sum_credits cs \<and>
         totalPoints (calculateGPA cs) = JString (toFixed2 (sum_points cs)) \<and>
         gpa (calculateGPA cs) =
           JString (toFixed2 (if js_gt_zero (sum_credits cs)
                              then js_div (sum_points cs) (sum_credits cs) else Fin 0)) \<and>
         courseCount (calculateGPA cs) = length cs \<and>
         calculateGPA [\<lparr>name = ''CS101'', credits = JNumber (Fin 3), grade = ''4.0''\<rparr>,
                       \<lparr>name = ''MA201'', credits = JNumber (Fin 3), grade = ''3.0''\<rparr>] =
           \<lparr>gpa = JString ''3.50'', totalCredits = Fin 6, totalPoints = JString ''21.00'',
            courseCount = 2\<rparr>"
proof -
  have t: "totals cs = (sum_credits cs, sum_points cs)"
    using assms(2) by (rule totals_sums)
  have f: "totalCredits (calculateGPA cs) = sum_credits cs \<and>
         totalPoints (calculateGPA cs) = JString (toFixed2 (sum_points cs)) \<and>
         gpa (calculateGPA cs) =
           JString (toFixed2 (if js_gt_zero (sum_credits cs)
                              then js_div (sum_points cs) (sum_credits cs) else Fin 0)) \<and>
         courseCount (calculateGPA cs) = length cs"
    using assms(1) by (simp add: calculateGPA_def quotient_def t)
  from f example_result show ?thesis by blast
qed

text \<open>One credit of \<open>4.0\<close> and two credits of \<open>3.0\<close>: 10 points over 3 credits.\<close>

theorem calculateGPA_totals_witness:
  "totalCredits (calculateGPA [\<lparr>name = ''A'', credits = JNumber (Fin 1), grade = ''4.0''\<rparr>,
                               \<lparr>name = ''B'', credits = JNumber (Fin 2), grade = ''3.0''\<rparr>]) = Fin 3 \<and>
   totalPoints (calculateGPA [\<lparr>name = ''A'', credits = JNumber (Fin 1), grade = ''4.0''\<rparr>,
                              \<lparr>name = ''B'', credits = JNumber (Fin 2), grade = ''3.0''\<rparr>]) =
     JString ''10.00'' \<and>
   gpa (calculateGPA [\<lparr>name = ''A'', credits = JNumber (Fin 1), grade = ''4.0''\<rparr>,
                      \<lparr>name = ''B'', credits = JNumber (Fin 2), grade = ''3.0''\<rparr>]) =
     JString ''3.33''"
proof -
  let ?cs = "[\<lparr>name = ''A'', credits = JNumber (Fin 1), grade = ''4.0''\<rparr>,
              \<lparr>name = ''B'', credits = JNumber (Fin 2), grade = ''3.0''\<rparr>]"
  have n: "?cs \<noteq> []"
    by simp
  have g: "\<forall>c\<in>set ?cs. gradePoints (grade c) \<noteq> None"
    by (simp add: gradePoints_def)
  have c: "sum_credits ?cs = Fin 3"
    by (simp add: sum_credits_def num_eval)
  have p: "sum_points ?cs = Fin 10"
    by (simp add: sum_points_def gradePoints_def num_eval)
  from calculateGPA_totals [OF n g] show ?thesis
    by (simp add: c p num_eval fixed_eval)
qed

text \<open>
  The claim as the specification states it makes \<open>gpa\<close> the quotient
  \<open>totalPoints / totalCredits\<close>. On the courses above the returned \<open>gpa\<close> is the
  string \<open>3.33\<close>, not the quotient of 10 by 3; on one course of zero credits it is
  \<open>0.00\<close>, where the quotient of zero by zero is \<open>NaN\<close>.
\<close>

theorem calculateGPA_totals_counterexample:
  "gpa (calculateGPA [\<lparr>name = ''A'', credits = JNumber (Fin 1), grade = ''4.0''\<rparr>,
                      \<lparr>name = ''B'', credits = JNumber (Fin 2), grade = ''3.0''\<rparr>]) =
     JString ''3.33'' \<and>
   parseFloat (gpa (calculateGPA [\<lparr>name = ''A'', credits = JNumber (Fin 1), grade = ''4.0''\<rparr>,
                      \<lparr>name = ''B'', credits = JNumber (Fin 2), grade = ''3.0''\<rparr>])) \<noteq>
     js_div
       (parseFloat (totalPoints (calculateGPA
          [\<lparr>name = ''A'', credits = JNumber (Fin 1), grade = ''4.0''\<rparr>,
           \<lparr>name = ''B'', credits = JNumber (Fin 2), grade = ''3.0''\<rparr>])))
       (totalCredits (calculateGPA
          [\<lparr>name = ''A'', credits = JNumber (Fin 1), grade = ''4.0''\<rparr>,
           \<lparr>name = ''B'', credits = JNumber (Fin 2), grade = ''3.0''\<rparr>])) \<and>
   gpa (calculateGPA [\<lparr>name = ''C'', credits = JNumber (Fin 0), grade = ''4.0''\<rparr>]) =
     JString ''0.00'' \<and>
   js_div
     (parseFloat (totalPoints (calculateGPA
        [\<lparr>name = ''C'', credits = JNumber (Fin 0), grade = ''4.0''\<rparr>])))
     (totalCredits (calculateGPA
        [\<lparr>name = ''C'', credits = JNumber (Fin 0), grade = ''4.0''\<rparr>])) = NaN"
  by (simp add: proc_eval parseFloat_token num_eval fixed_eval text_eval)

section \<open>Reordering\<close>

lemma exact_sum_foldl:
  assumes "exact_sum a xs"
  shows "foldl js_add (Fin a) xs = Fin (a + sum_list (map fin_value xs))"
  using assms
proof (induction xs arbitrary: a)
  case Nil
  then show ?case by simp
next
  case (Cons x xs)
  then obtain b where x: "x = Fin b"
    by (cases x) simp_all
  from Cons.prems x have r: "rnd (a + b) = Fin (a + b)" and e: "exact_sum (a + b) xs"
    by simp_all
  from Cons.IH [OF e] show ?case
    by (simp add: x r add.assoc)
qed

lemma sum_values_mset:
  assumes "mset cs = mset cs'"
  shows "sum_list (map fin_value (map f cs)) = sum_list (map fin_value (map f cs'))"
proof -
  have "sum_list (map fin_value (map f cs)) = sum_mset (mset (map fin_value (map f cs)))"
    by (rule sum_mset_sum_list [symmetric])
  also have "\<dots> = sum_mset (mset (map fin_value (map f cs')))"
    using assms by (metis mset_map)
  also have "\<dots> = sum_list (map fin_value (map f cs'))"
    by (rule sum_mset_sum_list)
  finally show ?thesis .
qed

lemma totals_exact:
  assumes "exact_totals cs"
  shows "totals cs =
     (Fin (sum_list (map fin_value (map (\<lambda>c. parseFloat (credits c)) cs))),
      Fin (sum_list (map fin_value
        (map (\<lambda>c. js_mul (parseFloat (credits c)) (parseFloat (JString (grade c)))) cs))))"
  using assms exact_sum_foldl [of 0]
  by (simp add: exact_totals_def totals_def foldl_accumulate)

text \<open>
  Claim C7, as amended. For every sequence of courses and every permutation of it,
  \<open>calculateGPA\<close> returns the same \<open>courseCount\<close>; it returns the same result
  altogether when, in both orders, no addition of the two running sums rounds (every
  partial sum is a binary64 value), as with whole-number credits and grade points.
\<close>

theorem calculateGPA_reorder:
  assumes "mset cs = mset cs'"
  shows "courseCount (calculateGPA cs) = courseCount (calculateGPA cs') \<and>
         (exact_totals cs \<and> exact_totals cs' \<longrightarrow> calculateGPA cs = calculateGPA cs')"
proof -
  have l: "length cs = length cs'"
    using assms by (rule mset_eq_length)
  have n: "courseCount (calculateGPA cs) = courseCount (calculateGPA cs')"
    by (simp add: calculateGPA_def l)
  have e: "calculateGPA cs = calculateGPA cs'" if "exact_totals cs" and "exact_totals cs'"
  proof -
    have "totals cs = totals cs'"
      unfolding totals_exact [OF that(1)] totals_exact [OF that(2)]
      using sum_values_mset [OF assms] by simp
    then show ?thesis
      by (simp add: calculateGPA_def l)
  qed
  from n e show ?thesis by blast
qed

text \<open>The two courses of the example, in both orders.\<close>

theorem calculateGPA_reorder_witness:
  "calculateGPA [\<lparr>name = ''CS101'', credits = JNumber (Fin 3), grade = ''4.0''\<rparr>,
                 \<lparr>name = ''MA201'', credits = JNumber (Fin 3), grade = ''3.0''\<rparr>] =
   calculateGPA [\<lparr>name = ''MA201'', credits = JNumber (Fin 3), grade = ''3.0''\<rparr>,
                 \<lparr>name = ''CS101'', credits = JNumber (Fin 3), grade = ''4.0''\<rparr>]"
proof -
  let ?a = "\<lparr>name = ''CS101'', credits = JNumber (Fin 3), grade = ''4.0''\<rparr>"
  let ?b = "\<lparr>name = ''MA201'', credits = JNumber (Fin 3), grade = ''3.0''\<rparr>"
  have m: "mset [?a, ?b] = mset [?b, ?a]"
    by (simp add: add_mset_commute)
  have x: "exact_totals [?a, ?b]"
    by (simp add: exact_totals_def parseFloat_token num_eval)
  have y: "exact_totals [?b, ?a]"
    by (simp add: exact_totals_def parseFloat_token num_eval)
  from calculateGPA_reorder [OF m] x y show ?thesis
    by blast
qed

text \<open>
  The claim as the specification states it holds of every permutation. Binary64 addition
  is not associative: the credits \<open>0.1\<close>, \<open>0.2\<close>, \<open>0.3\<close> add up to
  \<open>0.6000000000000001\<close> in this order and to \<open>0.6\<close> in the reverse order, and
  \<open>totalCredits\<close> is returned unrounded.
\<close>

theorem calculateGPA_reorder_counterexample:
  "mset [\<lparr>name = ''A'', credits = JNumber (rnd (1 / 10)), grade = ''4.0''\<rparr>,
         \<lparr>name = ''B'', credits = JNumber (rnd (2 / 10)), grade = ''4.0''\<rparr>,
         \<lparr>name = ''C'', credits = JNumber (rnd (3 / 10)), grade = ''4.0''\<rparr>] =
   mset [\<lparr>name = ''C'', credits = JNumber (rnd (3 / 10)), grade = ''4.0''\<rparr>,
         \<lparr>name = ''B'', credits = JNumber (rnd (2 / 10)), grade = ''4.0''\<rparr>,
         \<lparr>name = ''A'', credits = JNumber (rnd (1 / 10)), grade = ''4.0''\<rparr>] \<and>
   totalCredits (calculateGPA
        [\<lparr>name = ''A'', credits = JNumber (rnd (1 / 10)), grade = ''4.0''\<rparr>,
         \<lparr>name = ''B'', credits = JNumber (rnd (2 / 10)), grade = ''4.0''\<rparr>,
         \<lparr>name = ''C'', credits = JNumber (rnd (3 / 10)), grade = ''4.0''\<rparr>]) =
     Fin (5404319552844596 / 9007199254740992) \<and>
   totalCredits (calculateGPA
        [\<lparr>name = ''C'', credits = JNumber (rnd (3 / 10)), grade = ''4.0''\<rparr>,
         \<lparr>name = ''B'', credits = JNumber (rnd (2 / 10)), grade = ''4.0''\<rparr>,
         \<lparr>name = ''A'', credits = JNumber (rnd (1 / 10)), grade = ''4.0''\<rparr>]) =
     Fin (5404319552844595 / 9007199254740992) \<and>
   calculateGPA
        [\<lparr>name = ''A'', credits = JNumber (rnd (1 / 10)), grade = ''4.0''\<rparr>,
         \<lparr>name = ''B'', credits = JNumber (rnd (2 / 10)), grade = ''4.0''\<rparr>,
         \<lparr>name = ''C'', credits = JNumber (rnd (3 / 10)), grade = ''4.0''\<rparr>] \<noteq>
   calculateGPA
        [\<lparr>name = ''C'', credits = JNumber (rnd (3 / 10)), grade = ''4.0''\<rparr>,
         \<lparr>name = ''B'', credits = JNumber (rnd (2 / 10)), grade = ''4.0''\<rparr>,
         \<lparr>name = ''A'', credits = JNumber (rnd (1 / 10)), grade = ''4.0''\<rparr>]"
proof -
  let ?a = "\<lparr>name = ''A'', credits = JNumber (rnd (1 / 10)), grade = ''4.0''\<rparr>"
  let ?b = "\<lparr>name = ''B'', credits = JNumber (rnd (2 / 10)), grade = ''4.0''\<rparr>"
  let ?c = "\<lparr>name = ''C'', credits = JNumber (rnd (3 / 10)), grade = ''4.0''\<rparr>"
  have m: "mset [?a, ?b, ?c] = mset [?c, ?b, ?a]"
    by (simp add: add_mset_commute)
  have x: "totalCredits (calculateGPA [?a, ?b, ?c]) = Fin (5404319552844596 / 9007199254740992)"
    by (simp add: proc_eval parseFloat_token num_eval)
  have y: "totalCredits (calculateGPA [?c, ?b, ?a]) = Fin (5404319552844595 / 9007199254740992)"
    by (simp add: proc_eval parseFloat_token num_eval)
  have d: "calculateGPA [?a, ?b, ?c] \<noteq> calculateGPA [?c, ?b, ?a]"
    using x y by auto
  from m x y d show ?thesis by blast
qed

section \<open>The grade table and its use\<close>

lemma validateCourse_any_string:
  "validateCourse_any nm cr (JString gr) = validateCourse nm cr gr"
  by (simp add: validateCourse_any_def validateCourse_def)

lemma property_key_numbers:
  "property_key (JNumber (rnd (37 / 10))) = ''3.7''"
  "property_key (JNumber (Fin 4)) = ''4''"
  by (simp_all add: toString_eval fixed_eval num_eval)

lemma totalPoints_parseFloat:
  assumes "cs \<noteq> []"
  shows "totalPoints (calculateGPA cs) =
     JString (toFixed2 (foldl js_add (Fin 0)
       (map (\<lambda>c. js_mul (parseFloat (credits c)) (parseFloat_string (grade c))) cs)))"
  using assms by (simp add: calculateGPA_def totals_def foldl_accumulate)

lemma grade_35_result:
  "calculateGPA [\<lparr>name = ''CS101'', credits = JNumber (Fin 3), grade = ''3.5''\<rparr>] =
     \<lparr>gpa = JString ''3.50'', totalCredits = Fin 3, totalPoints = JString ''10.50'',
      courseCount = 1\<rparr>"
  by (simp add: proc_eval text_eval num_eval fixed_eval)

text \<open>
  Claim C8, as amended. The table \<open>gradePoints\<close> has exactly the eleven tokens
  \<open>4.0, 3.7, 3.3, 3.0, 2.7, 2.3, 2.0, 1.7, 1.3, 1.0, 0.0\<close> as keys, each mapped to its
  numeric value (the number that \<open>parseFloat\<close> reads from the token), which lies
  between 0 and 4, and it has no entry for any other key, such as a letter grade in
  either case, \<open>4\<close>, \<open>4.00\<close> or the empty text.

  \<open>validateCourse\<close> is the only reader of the table, through \<open>hasOwnProperty\<close>,
  which converts the grade to a property key: it reports "Invalid grade selected" exactly
  when that key is not one of the eleven tokens. A string grade is therefore accepted
  exactly when it is one of the tokens; a number is accepted exactly when its string form
  is one of them, so the number \<open>3.7\<close> is accepted and the number \<open>4\<close>, written
  \<open>4\<close>, is rejected.

  \<open>calculateGPA\<close> does not look grades up in the table and does not fail on any
  grade: the grade-point value it multiplies the credits by is \<open>parseFloat(grade)\<close>,
  which is the table's value on the eleven tokens and is defined on other grades too.
  The grade \<open>3.5\<close> counts as 3.5 points per credit, and a grade without a numeric
  prefix as \<open>NaN\<close>.
\<close>

theorem grade_table_and_use:
  "dom gradePoints =
     {''4.0'', ''3.7'', ''3.3'', ''3.0'', ''2.7'', ''2.3'', ''2.0'', ''1.7'', ''1.3'', ''1.0'', ''0.0''} \<and>
   card (dom gradePoints) = 11 \<and>
   (\<forall>g v. gradePoints g = Some v \<longrightarrow>
      v = parseFloat_string g \<and> (case v of Fin r \<Rightarrow> 0 \<le> r \<and> r \<le> 4 | _ \<Rightarrow> False)) \<and>
   gradePoints ''A'' = None \<and> gradePoints ''a'' = None \<and> gradePoints ''4'' = None \<and>
   gradePoints ''4.00'' = None \<and> gradePoints '''' = None \<and>
   (\<forall>nm cr gr. (''Invalid grade selected'' \<in> set (validateCourse nm cr gr)) =
      (gr \<notin> dom gradePoints)) \<and>
   (\<forall>nm cr g. (''Invalid grade selected'' \<in> set (validateCourse_any nm cr g)) =
      (property_key g \<notin> dom gradePoints)) \<and>
   (\<forall>nm cr gr. validateCourse_any nm cr (JString gr) = validateCourse nm cr gr) \<and>
   property_key (JNumber (rnd (37 / 10))) = ''3.7'' \<and>
   property_key (JNumber (Fin 4)) = ''4'' \<and>
   validateCourse_any ''CS101'' (Fin 3) (JNumber (rnd (37 / 10))) = [] \<and>
   validateCourse_any ''CS101'' (Fin 3) (JNumber (Fin 4)) = [''Invalid grade selected''] \<and>
   (\<forall>cs. cs \<noteq> [] \<longrightarrow>
      totalPoints (calculateGPA cs) =
        JString (toFixed2 (foldl js_add (Fin 0)
          (map (\<lambda>c. js_mul (parseFloat (credits c)) (parseFloat_string (grade c))) cs)))) \<and>
   parseFloat_string ''3.5'' = Fin (7 / 2) \<and> parseFloat_string ''A'' = NaN \<and>
   calculateGPA [\<lparr>name = ''CS101'', credits = JNumber (Fin 3), grade = ''3.5''\<rparr>] =
     \<lparr>gpa = JString ''3.50'', totalCredits = Fin 3, totalPoints = JString ''10.50'',
      courseCount = 1\<rparr>"
proof -
  have t: "trim ''CS101'' = ''CS101''"
    by (simp add: trim_def is_whitespace_def)
  have d: "dom gradePoints =
     {''4.0'', ''3.7'', ''3.3'', ''3.0'', ''2.7'', ''2.3'', ''2.0'', ''1.7'', ''1.3'', ''1.0'', ''0.0''}"
    by (rule gradePoints_dom)
  have c: "card (dom gradePoints) = 11"
    unfolding d by simp
  have v: "\<forall>g v. gradePoints g = Some v \<longrightarrow>
      v = parseFloat_string g \<and> (case v of Fin r \<Rightarrow> 0 \<le> r \<and> r \<le> 4 | _ \<Rightarrow> False)"
    using gradePoints_parseFloat gradePoints_range by blast
  have n: "gradePoints ''A'' = None" "gradePoints ''a'' = None" "gradePoints ''4'' = None"
      "gradePoints ''4.00'' = None" "gradePoints '''' = None"
    by (simp_all add: gradePoints_None)
  have e: "\<forall>nm cr gr. (''Invalid grade selected'' \<in> set (validateCourse nm cr gr)) =
      (gr \<notin> dom gradePoints)"
    by (simp add: validateCourse_def domIff)
  have a: "\<forall>nm cr g. (''Invalid grade selected'' \<in> set (validateCourse_any nm cr g)) =
      (property_key g \<notin> dom gradePoints)"
    by (simp add: validateCourse_any_def domIff)
  have s: "\<forall>nm cr gr. validateCourse_any nm cr (JString gr) = validateCourse nm cr gr"
    by (simp add: validateCourse_any_string)
  have x: "validateCourse_any ''CS101'' (Fin 3) (JNumber (rnd (37 / 10))) = []"
      "validateCourse_any ''CS101'' (Fin 3) (JNumber (Fin 4)) = [''Invalid grade selected'']"
    unfolding validateCourse_any_def property_key_numbers t
    by (simp_all add: gradePoints_None)
  have p: "\<forall>cs. cs \<noteq> [] \<longrightarrow>
      totalPoints (calculateGPA cs) =
        JString (toFixed2 (foldl js_add (Fin 0)
          (map (\<lambda>c. js_mul (parseFloat (credits c)) (parseFloat_string (grade c))) cs)))"
    using totalPoints_parseFloat by blast
  have f: "parseFloat_string ''3.5'' = Fin (7 / 2)" "parseFloat_string ''A'' = NaN"
    by (simp_all add: text_eval num_eval)
  show ?thesis
    by (intro conjI) (rule d c v n e a s property_key_numbers x p f grade_35_result)+
qed

text \<open>
  The token \<open>3.7\<close> is in the table with the value read from it, and three credits of
  it make 11.10 points.
\<close>

theorem grade_table_and_use_witness:
  "gradePoints ''3.7'' = Some (rnd (37 / 10)) \<and> rnd (37 / 10) = parseFloat_string ''3.7'' \<and>
   (case rnd (37 / 10) of Fin r \<Rightarrow> 0 \<le> r \<and> r \<le> 4 | _ \<Rightarrow> False) \<and>
   totalPoints (calculateGPA [\<lparr>name = ''CS101'', credits = JNumber (Fin 3), grade = ''3.7''\<rparr>]) =
     JString ''11.10''"
proof -
  have h: "gradePoints ''3.7'' = Some (rnd (37 / 10))"
    by (simp add: gradePoints_def)
  have n: "[\<lparr>name = ''CS101'', credits = JNumber (Fin 3), grade = ''3.7''\<rparr>] \<noteq> []"
    by simp
  have t: "toFixed2 (foldl js_add (Fin 0)
      (map (\<lambda>c. js_mul (parseFloat (credits c)) (parseFloat_string (grade c)))
        [\<lparr>name = ''CS101'', credits = JNumber (Fin 3), grade = ''3.7''\<rparr>])) = ''11.10''"
    by (simp add: parseFloat_token num_eval fixed_eval)
  from grade_table_and_use
  have v: "\<forall>g v. gradePoints g = Some v \<longrightarrow>
      v = parseFloat_string g \<and> (case v of Fin r \<Rightarrow> 0 \<le> r \<and> r \<le> 4 | _ \<Rightarrow> False)"
    by (elim conjE)
  from grade_table_and_use
  have p: "\<forall>cs. cs \<noteq> [] \<longrightarrow>
      totalPoints (calculateGPA cs) =
        JString (toFixed2 (foldl js_add (Fin 0)
          (map (\<lambda>c. js_mul (parseFloat (credits c)) (parseFloat_string (grade c))) cs)))"
    by (elim conjE)
  from v h have a: "rnd (37 / 10) = parseFloat_string ''3.7'' \<and>
      (case rnd (37 / 10) of Fin r \<Rightarrow> 0 \<le> r \<and> r \<le> 4 | _ \<Rightarrow> False)"
    by blast
  from p n have "totalPoints (calculateGPA
        [\<lparr>name = ''CS101'', credits = JNumber (Fin 3), grade = ''3.7''\<rparr>]) =
      JString (toFixed2 (foldl js_add (Fin 0)
        (map (\<lambda>c. js_mul (parseFloat (credits c)) (parseFloat_string (grade c)))
          [\<lparr>name = ''CS101'', credits = JNumber (Fin 3), grade = ''3.7''\<rparr>])))"
    by blast
  then have b: "totalPoints (calculateGPA
        [\<lparr>name = ''CS101'', credits = JNumber (Fin 3), grade = ''3.7''\<rparr>]) = JString ''11.10''"
    unfolding t .
  from h a b show ?thesis by blast
qed

text \<open>
  The claim as the specification states it has the grade-point lookup fail on every input
  but the eleven tokens, and validation accept nothing else. The grade \<open>3.5\<close> has no
  entry in the table, yet \<open>calculateGPA\<close> gives it 3.5 points per credit; and
  validation accepts the number \<open>3.7\<close>, which is not a token.
\<close>

theorem grade_lookup_counterexample:
  "gradePoints ''3.5'' = None \<and>
   calculateGPA [\<lparr>name = ''CS101'', credits = JNumber (Fin 3), grade = ''3.5''\<rparr>] =
     \<lparr>gpa = JString ''3.50'', totalCredits = Fin 3, totalPoints = JString ''10.50'',
      courseCount = 1\<rparr> \<and>
   gradePoints (property_key (JNumber (rnd (37 / 10)))) = Some (rnd (37 / 10)) \<and>
   validateCourse_any ''CS101'' (Fin 3) (JNumber (rnd (37 / 10))) = []"
proof -
  have g: "gradePoints ''3.5'' = None"
    by (simp add: gradePoints_None)
  have r: "calculateGPA [\<lparr>name = ''CS101'', credits = JNumber (Fin 3), grade = ''3.5''\<rparr>] =
     \<lparr>gpa = JString ''3.50'', totalCredits = Fin 3, totalPoints = JString ''10.50'',
      courseCount = 1\<rparr>"
    by (simp add: proc_eval text_eval num_eval fixed_eval)
  have k: "property_key (JNumber (rnd (37 / 10))) = ''3.7''"
    by (simp add: toString_eval fixed_eval num_eval)
  have t: "trim ''CS101'' = ''CS101''"
    by (simp add: trim_def is_whitespace_def)
  have v: "validateCourse_any ''CS101'' (Fin 3) (JNumber (rnd (37 / 10))) = []"
    unfolding validateCourse_any_def k t by (simp add: gradePoints_None)
  have z: "gradePoints (property_key (JNumber (rnd (37 / 10)))) = Some (rnd (37 / 10))"
    unfolding k by (simp add: gradePoints_def)
  from g r z v show ?thesis by blast
qed

end
